theory Spec2Isabelle
  imports Complex_Main
begin

section \<open>The black-oil box model: names and weights of unknowns and equations\<close>

text \<open>
  Source: \<^verbatim>\<open>ewoms/boxmodels/blackoil/blackoilmodel.hh\<close>, class \<^verbatim>\<open>BlackOilModel<TypeTag>\<close>.

  The class is a template: everything it reads through \<^verbatim>\<open>GET_PROP_TYPE\<close> and
  \<^verbatim>\<open>GET_PROP_VALUE\<close> (the index table \<^verbatim>\<open>Indices\<close>, the number of phases, the fluid
  system, the type \<^verbatim>\<open>Scalar\<close>) is declared in headers that are not part of the sources
  at hand. These are parameters of the model below, so every theorem holds for each
  instantiation of the template.

  \<^item> C++ \<^verbatim>\<open>int\<close> is modelled by \<open>int\<close>: the indices are small compile-time constants and
    slot numbers, and signed overflow has no defined result in C++ that a model could
    follow.
  \<^item> \<^verbatim>\<open>assert\<close> is modelled with assertions enabled: a failed assertion ends the call with
    the value \<open>Inl AssertionFailed\<close>.
  \<^item> A subscript outside a container has no defined behaviour in C++; the model ends the
    call with \<open>Inl OutOfRange\<close> instead of reading some value.
\<close>

datatype error = AssertionFailed | OutOfRange

subsection \<open>The type \<^verbatim>\<open>Scalar\<close>\<close>

text \<open>
  \<^verbatim>\<open>Scalar\<close> is a floating-point type chosen by the type tag. The model does not fix
  its arithmetic: the operations that the class uses are fields of a record, and the
  functions below are written against these fields.

  \<^item> \<open>s_lit\<close>: the value of a decimal literal (\<^verbatim>\<open>1.0\<close>, \<^verbatim>\<open>1\<close>, \<^verbatim>\<open>1e-35\<close>) in the type;
  \<^item> \<open>s_abs\<close>: \<^verbatim>\<open>std::abs\<close>;
  \<^item> \<open>s_div\<close>: the operator \<^verbatim>\<open>/\<close>;
  \<^item> \<open>s_less\<close>: the operator \<^verbatim>\<open><\<close>.
\<close>

record 'a scalar =
  s_lit :: "real \<Rightarrow> 'a"
  s_abs :: "'a \<Rightarrow> 'a"
  s_div :: "'a \<Rightarrow> 'a \<Rightarrow> 'a"
  s_less :: "'a \<Rightarrow> 'a \<Rightarrow> bool"

text \<open>
  \<^verbatim>\<open>std::min(a, b)\<close> of the C++ standard library returns \<^verbatim>\<open>(b < a) ? b : a\<close>.
\<close>

definition std_min :: "'a scalar \<Rightarrow> 'a \<Rightarrow> 'a \<Rightarrow> 'a" where
  "std_min S a b = (if s_less S b a then b else a)"

text \<open>
  Exact real arithmetic as one instance of \<^verbatim>\<open>Scalar\<close>: the reading under which the
  specification's formula \<open>min(1/|p|, 1)\<close> is a formula of real numbers. It leaves out
  rounding, and it differs from a floating-point type at a division by zero, where HOL
  has \<open>x / 0 = 0\<close> and IEEE arithmetic an infinity; statements about this instance
  therefore exclude a zero divisor.
\<close>

definition real_scalar :: "real scalar" where
  "real_scalar = \<lparr> s_lit = (\<lambda>x. x), s_abs = abs, s_div = (/), s_less = (<) \<rparr>"

subsection \<open>The properties of the type tag\<close>

text \<open>
  \<^verbatim>\<open>Indices::pressure0Idx\<close>, \<^verbatim>\<open>Indices::saturation0Idx\<close>, \<^verbatim>\<open>Indices::conti0EqIdx\<close>,
  \<^verbatim>\<open>numPhases\<close>, \<^verbatim>\<open>numComponents\<close>, \<^verbatim>\<open>FluidSystem::phaseName\<close>,
  \<^verbatim>\<open>FluidSystem::molarMass\<close> and the arithmetic of \<^verbatim>\<open>Scalar\<close>.
\<close>

record 'a type_tag =
  pressure0Idx :: int
  saturation0Idx :: int
  conti0EqIdx :: int
  numPhases :: int
  numComponents :: int
  phaseName :: "int \<Rightarrow> string"
  molarMass :: "int \<Rightarrow> 'a"
  Scalar :: "'a scalar"

subsection \<open>The state of the model\<close>

text \<open>
  The class inherits the solution vectors from its base class: \<^verbatim>\<open>solution(timeIdx)\<close>
  is the solution of time level \<^verbatim>\<open>timeIdx\<close> (0 the current one, 1 the previous one), a
  vector with one block of primary variables per vertex.
\<close>

record 'a box_model =
  solutions :: "'a list list list"

definition subscript :: "'b list \<Rightarrow> int \<Rightarrow> error + 'b" where
  "subscript xs i = (if 0 \<le> i \<and> i < int (length xs) then Inr (xs ! nat i) else Inl OutOfRange)"

definition solution :: "'a box_model \<Rightarrow> int \<Rightarrow> error + 'a list list" where
  "solution M timeIdx = subscript (solutions M) timeIdx"

subsection \<open>\<^verbatim>\<open>primaryVarName\<close>, \<^verbatim>\<open>eqName\<close>\<close>

text \<open>
  The \<^verbatim>\<open>std::ostringstream\<close> is the string written so far: it starts empty and
  \<^verbatim>\<open>oss << s\<close> appends \<open>s\<close>.
\<close>

definition shl :: "string \<Rightarrow> string \<Rightarrow> string" where
  "shl oss s = oss @ s"

definition primaryVarName :: "'a type_tag \<Rightarrow> int \<Rightarrow> error + string" where
  "primaryVarName T pvIdx =
     (let oss = [] in
      if pvIdx = pressure0Idx T then
        Inr (shl (shl oss ''pressure_'') (phaseName T 0))
      else if saturation0Idx T \<le> pvIdx \<and> pvIdx \<le> saturation0Idx T + numPhases T - 1 then
        (let phaseIdx = pvIdx - saturation0Idx T in
         Inr (shl (shl oss ''saturation_'') (phaseName T phaseIdx)))
      else Inl AssertionFailed)"

definition eqName :: "'a type_tag \<Rightarrow> int \<Rightarrow> error + string" where
  "eqName T eqIdx =
     (let oss = [] in
      if conti0EqIdx T \<le> eqIdx \<and> eqIdx < conti0EqIdx T + numComponents T then
        Inr (shl (shl oss ''conti_'') (phaseName T (eqIdx - conti0EqIdx T)))
      else Inl AssertionFailed)"

subsection \<open>\<^verbatim>\<open>primaryVarWeight\<close>, \<^verbatim>\<open>eqWeight\<close>\<close>

definition primaryVarWeight :: "'a type_tag \<Rightarrow> 'a box_model \<Rightarrow> int \<Rightarrow> int \<Rightarrow> error + 'a" where
  "primaryVarWeight T M globalVertexIdx pvIdx =
     (if pvIdx = pressure0Idx T then
        (case solution M 1 of
           Inl e \<Rightarrow> Inl e
         | Inr sol \<Rightarrow>
             (case subscript sol globalVertexIdx of
                Inl e \<Rightarrow> Inl e
              | Inr priVars \<Rightarrow>
                  (case subscript priVars pvIdx of
                     Inl e \<Rightarrow> Inl e
                   | Inr pv \<Rightarrow>
                       (let absPv = s_abs (Scalar T) pv in
                        Inr (std_min (Scalar T)
                               (s_div (Scalar T) (s_lit (Scalar T) 1) absPv)
                               (s_lit (Scalar T) 1))))))
      else Inr (s_lit (Scalar T) 1))"

definition eqWeight :: "'a type_tag \<Rightarrow> 'a box_model \<Rightarrow> int \<Rightarrow> int \<Rightarrow> error + 'a" where
  "eqWeight T M globalVertexIdx eqIdx =
     (let compIdx = eqIdx - conti0EqIdx T in
      if 0 \<le> compIdx \<and> compIdx \<le> numPhases T then Inr (molarMass T compIdx)
      else Inl AssertionFailed)"

text \<open>
  The precondition of \<^verbatim>\<open>primaryVarWeight\<close>: the previous time level (time index 1) of
  the solution exists and holds slot \<open>pvIdx\<close> of vertex \<open>globalVertexIdx\<close>.
\<close>

definition populated :: "'a box_model \<Rightarrow> int \<Rightarrow> int \<Rightarrow> bool" where
  "populated M globalVertexIdx pvIdx =
     (1 < length (solutions M) \<and>
      0 \<le> globalVertexIdx \<and> globalVertexIdx < int (length (solutions M ! 1)) \<and>
      0 \<le> pvIdx \<and> pvIdx < int (length (solutions M ! 1 ! nat globalVertexIdx)))"

subsection \<open>An instance of the type tag\<close>

text \<open>
  The class comment describes the model as one of three phases and three components
  (water, gas, oil) whose primary variables are one pressure followed by saturations.
  The instance below follows that description, with the pressure in slot 0, the
  saturations from slot 1 on and the continuity equations from slot 0 on. It is used
  to evaluate the functions on concrete inputs; no general theorem depends on it.
\<close>

definition blackoil_phaseName :: "int \<Rightarrow> string" where
  "blackoil_phaseName phaseIdx =
     (if phaseIdx = 0 then ''water'' else if phaseIdx = 1 then ''gas''
      else if phaseIdx = 2 then ''oil'' else [])"

definition blackoil_molarMass :: "int \<Rightarrow> real" where
  "blackoil_molarMass compIdx =
     (if compIdx = 0 then 18 / 1000 else if compIdx = 1 then 16 / 1000
      else if compIdx = 2 then 350 / 1000 else 0)"

definition blackoil_tag :: "real type_tag" where
  "blackoil_tag =
     \<lparr> pressure0Idx = 0, saturation0Idx = 1, conti0EqIdx = 0,
       numPhases = 3, numComponents = 3,
       phaseName = blackoil_phaseName, molarMass = blackoil_molarMass,
       Scalar = real_scalar \<rparr>"

text \<open>
  A state with two time levels over two vertices; the previous pressures are
  \<open>-4\<close> and \<open>1/2\<close>.
\<close>

definition sample_model :: "real box_model" where
  "sample_model =
     \<lparr> solutions = [[[2, 1/10, 2/10], [3, 3/10, 4/10]],
                    [[-4, 1/10, 2/10], [1/2, 3/10, 4/10]]] \<rparr>"

definition other_model :: "real box_model" where
  "other_model =
     \<lparr> solutions = [[[2, 1/10, 2/10], [3, 3/10, 4/10]],
                    [[-8, 1/10, 2/10], [1/2, 3/10, 4/10]]] \<rparr>"

text \<open>
  The slots for which \<^verbatim>\<open>primaryVarName\<close> returns a name.
\<close>

definition validSlots :: "'a type_tag \<Rightarrow> int set" where
  "validSlots T = {pvIdx. \<not> isl (primaryVarName T pvIdx)}"

subsection \<open>\<^verbatim>\<open>init\<close>\<close>

text \<open>
  What a call may throw. \<^verbatim>\<open>Dune::Exception\<close> carries a message; every other exception
  is seen by its handler only through \<^verbatim>\<open>catch (...)\<close>.
\<close>

datatype exception = DuneException string | OtherException

text \<open>
  \<^verbatim>\<open>Dune::FMatrixPrecision<Scalar>\<close> is process-wide state of the Dune library: the limit
  below which the magnitude of a pivot counts as zero. \<^verbatim>\<open>set_singular_limit\<close> stores
  its argument there.
\<close>

record 'a fmatrix_precision =
  singular_limit :: 'a

definition set_singular_limit :: "'a \<Rightarrow> 'a fmatrix_precision \<Rightarrow> 'a fmatrix_precision" where
  "set_singular_limit x P = P\<lparr> singular_limit := x \<rparr>"

text \<open>
  \<^verbatim>\<open>init\<close> first calls \<^verbatim>\<open>ParentType::init(problem)\<close>, which is declared in a header not at
  hand: it is the parameter \<open>parentInit\<close>, free to change the model and the process-wide
  state or to throw. An exception of the parent leaves \<^verbatim>\<open>init\<close> before the limit is set.
\<close>

definition init ::
  "'a type_tag \<Rightarrow>
   ('p \<Rightarrow> 'a box_model \<times> 'a fmatrix_precision \<Rightarrow> exception + 'a box_model \<times> 'a fmatrix_precision) \<Rightarrow>
   'p \<Rightarrow> 'a box_model \<times> 'a fmatrix_precision \<Rightarrow> exception + 'a box_model \<times> 'a fmatrix_precision" where
  "init T parentInit problem st =
     (case parentInit problem st of
        Inl e \<Rightarrow> Inl e
      | Inr (M, P) \<Rightarrow> Inr (M, set_singular_limit (s_lit (Scalar T) (1 / 10 ^ 35)) P))"

text \<open>
  Modelled from the spec: the consumer of the limit, the inversion of the local matrices
  of the gradient reconstruction in the Dune library, is not part of the sources. The
  specification (section 4.2) has a matrix treated as singular when the magnitude of its
  pivot is below the threshold.
\<close>

definition treated_singular :: "'a type_tag \<Rightarrow> 'a fmatrix_precision \<Rightarrow> 'a \<Rightarrow> bool" where
  "treated_singular T P pivot = s_less (Scalar T) (s_abs (Scalar T) pivot) (singular_limit P)"

text \<open>
  A parent initialisation that allocates two time levels and does nothing else, and one
  that throws.
\<close>

definition sample_parentInit ::
  "unit \<Rightarrow> real box_model \<times> real fmatrix_precision
     \<Rightarrow> exception + real box_model \<times> real fmatrix_precision" where
  "sample_parentInit problem st = Inr (sample_model, snd st)"

definition dune_default_precision :: "real fmatrix_precision" where
  "dune_default_precision = \<lparr> singular_limit = 1 / 10 ^ 14 \<rparr>"

section \<open>The transport test program\<close>

text \<open>
  Source: \<^verbatim>\<open>test/transport/test_fvtransport.cc\<close>, function \<^verbatim>\<open>main\<close>.

  The program builds a grid, the variables, a problem, a transport model and a time
  loop, runs the loop and prints the saturation. The classes it uses are declared in
  headers that are not at hand, so the model keeps what \<^verbatim>\<open>main\<close> itself decides: the
  values it passes to the constructors, and what it does with the outcome.
  Decimal literals of type \<^verbatim>\<open>double\<close> are modelled by the real numbers they denote;
  rounding is not modelled.
\<close>

subsection \<open>Values constructed by \<^verbatim>\<open>main\<close>\<close>

text \<open>
  \<^verbatim>\<open>Dune::FieldVector<K,n> v(c)\<close> has \<open>n\<close> components, all equal to \<open>c\<close>; \<^verbatim>\<open>v[i] = x\<close>
  assigns one component.
\<close>

definition FieldVector :: "nat \<Rightarrow> 'k \<Rightarrow> 'k list" where
  "FieldVector n c = replicate n c"

text \<open>
  The arguments of the constructor of \<^verbatim>\<open>Dumux::TimeLoop\<close> after the grid view, in the
  order of the call. The last two arguments are both the variable \<^verbatim>\<open>maxDT\<close>; the
  second of them is the field \<open>firstDT\<close> here.
\<close>

record time_loop_args =
  tStart :: real
  tEnd :: real
  loopName :: string
  modulo :: int
  cFLFactor :: real
  maxDT :: real
  firstDT :: real

record test_setup =
  gridN :: "int list"
  gridL :: "real list"
  gridH :: "real list"
  initsat :: real
  velocity :: "real list"
  timeloop :: time_loop_args

definition reference_setup :: test_setup where
  "reference_setup =
     (let dim = 2;
          tStart = 0;
          tEnd = 4 * 10 ^ 9;
          cFLFactor = 99 / 100;
          maxDT = 10 ^ 100;
          modulo = 10;
          N = (FieldVector dim 1)[0 := 16];
          L = FieldVector dim 0;
          H = (FieldVector dim 300)[0 := 600];
          initsat = 0;
          velocity = (FieldVector dim 0)[0 := 1 / 6 * (1 / 10 ^ 6)]
      in \<lparr> gridN = N, gridL = L, gridH = H, initsat = initsat, velocity = velocity,
           timeloop = \<lparr> tStart = tStart, tEnd = tEnd, loopName = ''timeloop'',
                        modulo = modulo, cFLFactor = cFLFactor, maxDT = maxDT,
                        firstDT = maxDT \<rparr> \<rparr>)"

subsection \<open>\<^verbatim>\<open>main\<close>\<close>

text \<open>
  The body of the \<^verbatim>\<open>try\<close> block after the construction of the values above is the
  parameter \<open>body\<close>: it stands for the constructors, \<^verbatim>\<open>timeloop.execute(transport)\<close> and
  \<^verbatim>\<open>printvector\<close>. It returns what it wrote to \<^verbatim>\<open>std::cout\<close> and, when it did not run to
  its end, the exception it threw.

  \<^verbatim>\<open>main\<close> has \<^verbatim>\<open>return 0\<close> at the end of the \<^verbatim>\<open>try\<close> block and no \<^verbatim>\<open>return\<close> in its
  handlers; control that leaves a handler reaches the end of \<^verbatim>\<open>main\<close>, which in C++ has
  the effect of \<^verbatim>\<open>return 0\<close>.
\<close>

record process =
  cout :: string
  cerr :: string
  exit_status :: int

definition endl :: string where
  "endl = [CHR 0x0A]"

definition main :: "(test_setup \<Rightarrow> string \<times> exception option) \<Rightarrow> process" where
  "main body =
     (case body reference_setup of
        (out, None) \<Rightarrow> \<lparr> cout = out, cerr = [], exit_status = 0 \<rparr>
      | (out, Some (DuneException e)) \<Rightarrow>
          \<lparr> cout = out, cerr = ''Dune reported error: '' @ e @ endl, exit_status = 0 \<rparr>
      | (out, Some OtherException) \<Rightarrow>
          \<lparr> cout = out, cerr = ''Unknown exception thrown!'' @ endl, exit_status = 0 \<rparr>)"

text \<open>
  Three bodies: one that runs to its end, one that throws a \<^verbatim>\<open>Dune::Exception\<close>, one
  that throws something else.
\<close>

definition completing_body :: "test_setup \<Rightarrow> string \<times> exception option" where
  "completing_body s = (''saturation'', None)"

definition dune_throwing_body :: "test_setup \<Rightarrow> string \<times> exception option" where
  "dune_throwing_body s = ([], Some (DuneException ''GridError''))"

definition other_throwing_body :: "test_setup \<Rightarrow> string \<times> exception option" where
  "other_throwing_body s = ([], Some OtherException)"

section \<open>The transport time loop\<close>

text \<open>
  Modelled from the spec: \<^verbatim>\<open>Dumux::TimeLoop\<close> and its \<^verbatim>\<open>execute\<close> (header
  \<^verbatim>\<open>dumux/timedisc/timeloop.hh\<close>) are not part of the sources; only the call in \<^verbatim>\<open>main\<close>
  is. The definitions of this section follow section 4.3 of the specification: a state
  machine with the states RUNNING, STEP-REJECTED and TERMINATED over the loop state
  (current time, step index, step size).

  \<^item> Each iteration computes the candidate step: the CFL factor times the minimum over
    the faces of pore volume divided by the magnitude of the flux, capped by the maximum
    step size.
  \<^item> The saturation update is invoked with the step. If its result is numerically valid,
    the step is accepted: the time advances by the step, the step counter is incremented
    and the loop is RUNNING again. Otherwise the loop is in STEP-REJECTED, the step is
    halved and the update is tried again.
  \<^item> When the current time has reached the end time, the loop is TERMINATED.

  The transport model is a parameter: \<open>faces\<close> gives pore volume and flux of every face
  for a solution, \<open>update\<close> is the saturation update, with \<open>None\<close> for a result that is
  not valid. A face without flux bounds no step (the quotient has no value there), so
  the minimum runs over the faces with a flux other than zero. The output callback has
  no effect on time or step size and is left out. Times and step sizes are real numbers.
\<close>

datatype loop_mode = RUNNING | STEP_REJECTED | TERMINATED

record 'sol transport =
  faces :: "'sol \<Rightarrow> (real \<times> real) list"
  update :: "'sol \<Rightarrow> real \<Rightarrow> 'sol option"

record 'sol loop_state =
  mode :: loop_mode
  currentTime :: real
  stepIndex :: nat
  stepSize :: real
  sol :: 'sol

definition ratios :: "(real \<times> real) list \<Rightarrow> real list" where
  "ratios fs = map (\<lambda>(poreVolume, flux). poreVolume / \<bar>flux\<bar>) (filter (\<lambda>(poreVolume, flux). flux \<noteq> 0) fs)"

definition candidateStep :: "time_loop_args \<Rightarrow> (real \<times> real) list \<Rightarrow> real" where
  "candidateStep a fs =
     (if ratios fs = [] then maxDT a
      else min (cFLFactor a * Min (set (ratios fs))) (maxDT a))"

text \<open>
  One try of the update with step \<open>dt\<close>. The second component of the result is the
  accepted step, if there is one: its size and the solution it started from.
\<close>

definition attempt ::
  "'sol transport \<Rightarrow> 'sol loop_state \<Rightarrow> real \<Rightarrow> 'sol loop_state \<times> (real \<times> 'sol) option" where
  "attempt tr s dt =
     (case update tr (sol s) dt of
        Some u \<Rightarrow>
          (s\<lparr> mode := RUNNING, currentTime := currentTime s + dt,
              stepIndex := Suc (stepIndex s), stepSize := dt, sol := u \<rparr>,
           Some (dt, sol s))
      | None \<Rightarrow> (s\<lparr> mode := STEP_REJECTED, stepSize := dt / 2 \<rparr>, None))"

definition step ::
  "time_loop_args \<Rightarrow> 'sol transport \<Rightarrow> 'sol loop_state \<Rightarrow> 'sol loop_state \<times> (real \<times> 'sol) option" where
  "step a tr s =
     (case mode s of
        RUNNING \<Rightarrow>
          if tEnd a \<le> currentTime s then (s\<lparr> mode := TERMINATED \<rparr>, None)
          else attempt tr s (candidateStep a (faces tr (sol s)))
      | STEP_REJECTED \<Rightarrow> attempt tr s (stepSize s)
      | TERMINATED \<Rightarrow> (s, None))"

text \<open>
  The loop starts RUNNING at the start time. The step size of the initial state is
  never read: RUNNING computes a candidate before any use.
\<close>

definition initial :: "time_loop_args \<Rightarrow> 'sol \<Rightarrow> 'sol loop_state" where
  "initial a u = \<lparr> mode = RUNNING, currentTime = tStart a, stepIndex = 0, stepSize = 0, sol = u \<rparr>"

text \<open>
  The first \<open>n\<close> transitions of the loop and the steps accepted in them, in order. The
  specification puts no limit on the number of retries, so a run need not reach
  TERMINATED; a statement about every accepted step is a statement about every \<open>n\<close>.
\<close>

fun execute ::
  "nat \<Rightarrow> time_loop_args \<Rightarrow> 'sol transport \<Rightarrow> 'sol loop_state \<Rightarrow> (real \<times> 'sol) list \<times> 'sol loop_state" where
  "execute 0 a tr s = ([], s)"
| "execute (Suc n) a tr s =
     (case step a tr s of
        (s', acc) \<Rightarrow>
          (case execute n a tr s' of
             (accs, s'') \<Rightarrow> ((case acc of None \<Rightarrow> [] | Some x \<Rightarrow> [x]) @ accs, s'')))"

text \<open>
  A transport model for evaluation: the solution is a counter of accepted steps, there
  is one face with pore volume 8 and flux \<open>-2\<close> and one without flux, and the update is
  valid for steps of size at most 1.
\<close>

definition sample_transport :: "nat transport" where
  "sample_transport =
     \<lparr> faces = (\<lambda>u. [(8, - 2), (4, 0)]),
       update = (\<lambda>u dt. if dt \<le> 1 then Some (Suc u) else None) \<rparr>"

text \<open>
  The bound of the CFL invariant for a step of size \<open>dt\<close> taken over the faces \<open>fs\<close>: the
  step is at most the maximum step size and at most the CFL factor times the minimum of
  the quotients.
\<close>

definition within_cfl :: "time_loop_args \<Rightarrow> (real \<times> real) list \<Rightarrow> real \<Rightarrow> bool" where
  "within_cfl a fs dt =
     (dt \<le> maxDT a \<and> (ratios fs \<noteq> [] \<longrightarrow> dt \<le> cFLFactor a * Min (set (ratios fs))))"

text \<open>
  While a step is rejected, the step size kept for the next try is not negative and
  within the bound for the solution the loop is at.
\<close>

definition loop_inv :: "time_loop_args \<Rightarrow> 'sol transport \<Rightarrow> 'sol loop_state \<Rightarrow> bool" where
  "loop_inv a tr s =
     (mode s = STEP_REJECTED \<longrightarrow>
        0 \<le> stepSize s \<and> within_cfl a (faces tr (sol s)) (stepSize s))"

section \<open>Theorems about the black-oil model\<close>

subsection \<open>Names\<close>

lemma shl_empty: "shl (shl [] a) b = a @ b"
  by (simp add: shl_def)

text \<open>
  C1. For every slot index, \<^verbatim>\<open>primaryVarName\<close> returns \<open>pressure_\<close> followed by the name
  of phase 0 when the slot is the pressure slot; it returns \<open>saturation_\<close> followed by
  the name of phase \<open>slot - saturation0Idx\<close> when the slot lies in the inclusive range
  from \<open>saturation0Idx\<close> to \<open>saturation0Idx + numPhases - 1\<close>; for every other slot it
  fails on the assertion. The three cases are read in the order of the claim, as the
  code tests them: the pressure slot is decided first.
\<close>

theorem primaryVarName_cases:
  "(pvIdx = pressure0Idx T \<longrightarrow>
      primaryVarName T pvIdx = Inr (''pressure_'' @ phaseName T 0)) \<and>
   (pvIdx \<noteq> pressure0Idx T \<and> saturation0Idx T \<le> pvIdx
      \<and> pvIdx \<le> saturation0Idx T + numPhases T - 1 \<longrightarrow>
      primaryVarName T pvIdx = Inr (''saturation_'' @ phaseName T (pvIdx - saturation0Idx T))) \<and>
   (pvIdx \<noteq> pressure0Idx T
      \<and> \<not> (saturation0Idx T \<le> pvIdx \<and> pvIdx \<le> saturation0Idx T + numPhases T - 1) \<longrightarrow>
      primaryVarName T pvIdx = Inl AssertionFailed)"
  by (simp add: primaryVarName_def shl_empty)

theorem primaryVarName_cases_witness:
  "primaryVarName blackoil_tag 0 = Inr ''pressure_water'' \<and>
   primaryVarName blackoil_tag 2 = Inr ''saturation_gas'' \<and>
   primaryVarName blackoil_tag 4 = Inl AssertionFailed \<and>
   primaryVarName blackoil_tag (- 1) = Inl AssertionFailed"
  using primaryVarName_cases [of 0 blackoil_tag] primaryVarName_cases [of 2 blackoil_tag]
    primaryVarName_cases [of 4 blackoil_tag] primaryVarName_cases [of "- 1" blackoil_tag]
  by (simp add: blackoil_tag_def blackoil_phaseName_def)

text \<open>
  C2. For every equation slot, \<^verbatim>\<open>eqName\<close> returns \<open>conti_\<close> followed by the phase name
  of index \<open>eqIdx - conti0EqIdx\<close> when the slot lies in the half-open range from
  \<open>conti0EqIdx\<close> to \<open>conti0EqIdx + numComponents\<close>, and fails on the assertion for every
  slot outside that range.
\<close>

theorem eqName_cases:
  "(conti0EqIdx T \<le> eqIdx \<and> eqIdx < conti0EqIdx T + numComponents T \<longrightarrow>
      eqName T eqIdx = Inr (''conti_'' @ phaseName T (eqIdx - conti0EqIdx T))) \<and>
   (\<not> (conti0EqIdx T \<le> eqIdx \<and> eqIdx < conti0EqIdx T + numComponents T) \<longrightarrow>
      eqName T eqIdx = Inl AssertionFailed)"
  by (simp add: eqName_def shl_empty)

theorem eqName_cases_witness:
  "eqName blackoil_tag 0 = Inr ''conti_water'' \<and>
   eqName blackoil_tag 2 = Inr ''conti_oil'' \<and>
   eqName blackoil_tag 3 = Inl AssertionFailed \<and>
   eqName blackoil_tag (- 1) = Inl AssertionFailed"
  using eqName_cases [of blackoil_tag 0] eqName_cases [of blackoil_tag 2]
    eqName_cases [of blackoil_tag 3] eqName_cases [of blackoil_tag "- 1"]
  by (simp add: blackoil_tag_def blackoil_phaseName_def)

lemma primaryVarWeight_pressure:
  assumes "populated M v (pressure0Idx T)"
  shows "primaryVarWeight T M v (pressure0Idx T) =
           Inr (std_min (Scalar T)
                  (s_div (Scalar T) (s_lit (Scalar T) 1)
                     (s_abs (Scalar T) (solutions M ! 1 ! nat v ! nat (pressure0Idx T))))
                  (s_lit (Scalar T) 1))"
proof -
  from assms have lev: "solution M 1 = Inr (solutions M ! 1)"
    by (simp add: populated_def solution_def subscript_def)
  from assms have vert: "subscript (solutions M ! 1) v = Inr (solutions M ! 1 ! nat v)"
    by (simp add: populated_def subscript_def)
  from assms have slot: "subscript (solutions M ! 1 ! nat v) (pressure0Idx T) =
      Inr (solutions M ! 1 ! nat v ! nat (pressure0Idx T))"
    by (simp add: populated_def subscript_def)
  show ?thesis
    by (simp add: primaryVarWeight_def lev vert slot Let_def del: One_nat_def)
qed

lemma std_min_real: "std_min real_scalar a b = min a b"
  by (simp add: std_min_def real_scalar_def min_def)

text \<open>
  C3. For every vertex index and every slot index, \<^verbatim>\<open>primaryVarWeight\<close> returns
  \<open>min(1/|p|, 1)\<close> for the pressure slot, where \<open>p\<close> is the pressure stored at that vertex
  in the previous time level (time index 1) of the solution, provided that level is
  populated; and it returns exactly 1 for every slot other than the pressure slot, for
  all inputs. The first part is stated with the operations of \<^verbatim>\<open>Scalar\<close> and
  \<^verbatim>\<open>std::min\<close>, and once more for real arithmetic, where it is the minimum of real
  numbers whenever \<open>p\<close> is not zero.
\<close>

theorem primaryVarWeight_cases:
  "(populated M v (pressure0Idx T) \<longrightarrow>
      primaryVarWeight T M v (pressure0Idx T) =
        Inr (std_min (Scalar T)
               (s_div (Scalar T) (s_lit (Scalar T) 1)
                  (s_abs (Scalar T) (solutions M ! 1 ! nat v ! nat (pressure0Idx T))))
               (s_lit (Scalar T) 1))) \<and>
   (populated R v (pressure0Idx U) \<and> Scalar U = real_scalar
      \<and> solutions R ! 1 ! nat v ! nat (pressure0Idx U) \<noteq> 0 \<longrightarrow>
      primaryVarWeight U R v (pressure0Idx U) =
        Inr (min (1 / \<bar>solutions R ! 1 ! nat v ! nat (pressure0Idx U)\<bar>) 1)) \<and>
   (pvIdx \<noteq> pressure0Idx T \<longrightarrow> primaryVarWeight T M w pvIdx = Inr (s_lit (Scalar T) 1))"
proof (intro conjI impI)
  assume "populated M v (pressure0Idx T)"
  then show "primaryVarWeight T M v (pressure0Idx T) =
      Inr (std_min (Scalar T)
             (s_div (Scalar T) (s_lit (Scalar T) 1)
                (s_abs (Scalar T) (solutions M ! 1 ! nat v ! nat (pressure0Idx T))))
             (s_lit (Scalar T) 1))"
    by (rule primaryVarWeight_pressure)
next
  assume a: "populated R v (pressure0Idx U) \<and> Scalar U = real_scalar
      \<and> solutions R ! 1 ! nat v ! nat (pressure0Idx U) \<noteq> 0"
  then have "primaryVarWeight U R v (pressure0Idx U) =
      Inr (std_min real_scalar
             (s_div real_scalar (s_lit real_scalar 1)
                (s_abs real_scalar (solutions R ! 1 ! nat v ! nat (pressure0Idx U))))
             (s_lit real_scalar 1))"
    using primaryVarWeight_pressure [of R v U] by simp
  then show "primaryVarWeight U R v (pressure0Idx U) =
      Inr (min (1 / \<bar>solutions R ! 1 ! nat v ! nat (pressure0Idx U)\<bar>) 1)"
    by (simp add: std_min_real) (simp add: real_scalar_def)
next
  assume "pvIdx \<noteq> pressure0Idx T"
  then show "primaryVarWeight T M w pvIdx = Inr (s_lit (Scalar T) 1)"
    by (simp add: primaryVarWeight_def)
qed

lemma populated_sample: "populated sample_model 0 0" "populated sample_model 1 0"
  by (simp_all add: populated_def sample_model_def)

theorem primaryVarWeight_cases_witness:
  "populated sample_model 0 (pressure0Idx blackoil_tag) \<and>
   primaryVarWeight blackoil_tag sample_model 0 0 = Inr (1 / 4) \<and>
   primaryVarWeight blackoil_tag sample_model 1 0 = Inr 1 \<and>
   primaryVarWeight blackoil_tag sample_model 0 2 = Inr 1 \<and>
   primaryVarWeight blackoil_tag sample_model 7 (- 3) = Inr 1"
  using primaryVarWeight_cases [of sample_model 0 blackoil_tag sample_model blackoil_tag 2 0]
    primaryVarWeight_cases [of sample_model 1 blackoil_tag sample_model blackoil_tag "- 3" 7]
    populated_sample
  by (simp add: blackoil_tag_def sample_model_def real_scalar_def std_min_def)

text \<open>
  C4. For every vertex index and equation slot, \<^verbatim>\<open>eqWeight\<close> returns
  \<open>molarMass compIdx\<close> with \<open>compIdx = eqIdx - conti0EqIdx\<close> whenever
  \<open>0 \<le> compIdx \<le> numPhases\<close>, and fails on the assertion whenever \<open>compIdx\<close> lies
  outside that range.
\<close>

theorem eqWeight_cases:
  "(0 \<le> eqIdx - conti0EqIdx T \<and> eqIdx - conti0EqIdx T \<le> numPhases T \<longrightarrow>
      eqWeight T M v eqIdx = Inr (molarMass T (eqIdx - conti0EqIdx T))) \<and>
   (\<not> (0 \<le> eqIdx - conti0EqIdx T \<and> eqIdx - conti0EqIdx T \<le> numPhases T) \<longrightarrow>
      eqWeight T M v eqIdx = Inl AssertionFailed)"
  by (simp add: eqWeight_def Let_def)

theorem eqWeight_cases_witness:
  "eqWeight blackoil_tag sample_model 0 0 = Inr (18 / 1000) \<and>
   eqWeight blackoil_tag sample_model 1 2 = Inr (350 / 1000) \<and>
   eqWeight blackoil_tag sample_model 1 3 = Inr (blackoil_molarMass 3) \<and>
   eqWeight blackoil_tag sample_model 0 4 = Inl AssertionFailed \<and>
   eqWeight blackoil_tag sample_model 0 (- 1) = Inl AssertionFailed"
  using eqWeight_cases [of 0 blackoil_tag sample_model 0]
    eqWeight_cases [of 2 blackoil_tag sample_model 1]
    eqWeight_cases [of 3 blackoil_tag sample_model 1]
    eqWeight_cases [of 4 blackoil_tag sample_model 0]
    eqWeight_cases [of "- 1" blackoil_tag sample_model 0]
  by (simp add: blackoil_tag_def blackoil_molarMass_def)

text \<open>
  C10. \<^verbatim>\<open>eqWeight\<close> does not depend on its vertex argument nor on the solution: for a
  fixed equation slot it returns the same value at every pair of vertices and in every
  pair of states. \<^verbatim>\<open>primaryVarWeight\<close> is different: at the pressure slot its value
  changes with the previous solution and with the vertex.
\<close>

theorem eqWeight_independent:
  "eqWeight T M v eqIdx = eqWeight T M' v' eqIdx \<and>
   primaryVarWeight blackoil_tag sample_model 0 0 \<noteq> primaryVarWeight blackoil_tag other_model 0 0 \<and>
   primaryVarWeight blackoil_tag sample_model 0 0 \<noteq> primaryVarWeight blackoil_tag sample_model 1 0"
  by (simp add: eqWeight_def Let_def primaryVarWeight_def solution_def subscript_def std_min_def
      blackoil_tag_def sample_model_def other_model_def real_scalar_def)

subsection \<open>The slots that have a name\<close>

lemma validSlots_eq:
  "validSlots T = insert (pressure0Idx T) {saturation0Idx T .. saturation0Idx T + numPhases T - 1}"
  by (auto simp: validSlots_def primaryVarName_def Let_def)

lemma card_validSlots:
  assumes "0 \<le> numPhases T"
    and "\<not> (saturation0Idx T \<le> pressure0Idx T \<and> pressure0Idx T \<le> saturation0Idx T + numPhases T - 1)"
  shows "card (validSlots T) = nat (numPhases T) + 1"
proof -
  have "pressure0Idx T \<notin> {saturation0Idx T .. saturation0Idx T + numPhases T - 1}"
    using assms(2) by simp
  then show ?thesis
    using assms(1) by (simp add: validSlots_eq)
qed

text \<open>
  C5. The claim: the slots for which \<^verbatim>\<open>primaryVarName\<close> succeeds are those of the
  per-vertex vector of primary variables, one pressure slot and \<open>numPhases - 1\<close>
  saturation slots, \<open>numPhases\<close> slots in all. The code accepts the saturation slots up to
  and including \<open>saturation0Idx + numPhases - 1\<close>, that is \<open>numPhases\<close> of them. For the
  model of three phases with the pressure in slot 0 and the saturations from slot 1 on,
  slot 3 has the name \<open>saturation_oil\<close> and four slots have a name, one more than the
  three primary variables that the comment of the class lists (the pressure and two
  saturations).
\<close>

theorem validSlots_blackoil:
  "primaryVarName blackoil_tag 3 = Inr ''saturation_oil'' \<and>
   validSlots blackoil_tag = {0, 1, 2, 3} \<and>
   card (validSlots blackoil_tag) = 4 \<and> numPhases blackoil_tag = 3"
proof -
  have a: "primaryVarName blackoil_tag 3 = Inr ''saturation_oil''"
    by (simp add: primaryVarName_def blackoil_tag_def blackoil_phaseName_def shl_def)
  have b: "validSlots blackoil_tag = {0, 1, 2, 3}"
    by (auto simp: validSlots_eq blackoil_tag_def)
  have c: "card (validSlots blackoil_tag) = 4"
    by (simp add: b)
  show ?thesis using a b c by (simp add: blackoil_tag_def)
qed

subsection \<open>Initialisation\<close>

text \<open>
  C8. After \<^verbatim>\<open>init\<close> has completed, the limit below which a pivot makes a matrix singular
  is exactly the value of the literal \<^verbatim>\<open>1e-35\<close>, so that every pivot whose magnitude is
  below that value is treated as singular.
\<close>

theorem init_sets_singular_limit:
  "init T parentInit problem st = Inr (M', P') \<longrightarrow>
     singular_limit P' = s_lit (Scalar T) (1 / 10 ^ 35) \<and>
     (\<forall>pivot. s_less (Scalar T) (s_abs (Scalar T) pivot) (s_lit (Scalar T) (1 / 10 ^ 35))
        \<longrightarrow> treated_singular T P' pivot)"
  by (auto simp: init_def set_singular_limit_def treated_singular_def split: sum.splits)

theorem init_sets_singular_limit_witness:
  "init blackoil_tag sample_parentInit () (other_model, dune_default_precision)
     = Inr (sample_model, \<lparr> singular_limit = 1 / 10 ^ 35 \<rparr>) \<and>
   singular_limit \<lparr> singular_limit = 1 / 10 ^ 35 :: real \<rparr> = 1 / 10 ^ 35 \<and>
   treated_singular blackoil_tag \<lparr> singular_limit = 1 / 10 ^ 35 \<rparr> (- 1 / 10 ^ 36) \<and>
   \<not> treated_singular blackoil_tag \<lparr> singular_limit = 1 / 10 ^ 35 \<rparr> (1 / 10 ^ 20)"
proof -
  have run: "init blackoil_tag sample_parentInit () (other_model, dune_default_precision)
     = Inr (sample_model, \<lparr> singular_limit = 1 / 10 ^ 35 \<rparr>)"
    by (simp add: init_def sample_parentInit_def set_singular_limit_def
        dune_default_precision_def blackoil_tag_def real_scalar_def)
  have small: "s_less (Scalar blackoil_tag) (s_abs (Scalar blackoil_tag) (- 1 / 10 ^ 36))
      (s_lit (Scalar blackoil_tag) (1 / 10 ^ 35))"
    by (simp add: blackoil_tag_def real_scalar_def)
  have big: "\<not> treated_singular blackoil_tag \<lparr> singular_limit = 1 / 10 ^ 35 \<rparr> (1 / 10 ^ 20)"
    by (simp add: treated_singular_def blackoil_tag_def real_scalar_def)
  have "singular_limit \<lparr> singular_limit = 1 / 10 ^ 35 :: real \<rparr> = s_lit (Scalar blackoil_tag) (1 / 10 ^ 35) \<and>
     (\<forall>pivot. s_less (Scalar blackoil_tag) (s_abs (Scalar blackoil_tag) pivot)
          (s_lit (Scalar blackoil_tag) (1 / 10 ^ 35))
        \<longrightarrow> treated_singular blackoil_tag \<lparr> singular_limit = 1 / 10 ^ 35 \<rparr> pivot)"
    using init_sets_singular_limit [of blackoil_tag sample_parentInit "()"
      "(other_model, dune_default_precision)" sample_model "\<lparr> singular_limit = 1 / 10 ^ 35 \<rparr>"]
      run by (rule mp)
  then have lim: "singular_limit \<lparr> singular_limit = 1 / 10 ^ 35 :: real \<rparr> = 1 / 10 ^ 35"
    and sing: "treated_singular blackoil_tag \<lparr> singular_limit = 1 / 10 ^ 35 \<rparr> (- 1 / 10 ^ 36)"
    using small by (simp_all add: blackoil_tag_def real_scalar_def)
  from run lim sing big show ?thesis by (intro conjI)
qed

section \<open>Theorems about the transport test program\<close>

lemma reference_setup_eval:
  "reference_setup =
     \<lparr> gridN = [16, 1], gridL = [0, 0], gridH = [600, 300], initsat = 0,
       velocity = [1 / 6 * (1 / 10 ^ 6), 0],
       timeloop = \<lparr> tStart = 0, tEnd = 4 * 10 ^ 9, loopName = ''timeloop'', modulo = 10,
                    cFLFactor = 99 / 100, maxDT = 10 ^ 100, firstDT = 10 ^ 100 \<rparr> \<rparr>"
  by (simp add: reference_setup_def FieldVector_def Let_def numeral_2_eq_2)

text \<open>
  C9. The test configures and runs the time loop with exactly these values: a domain
  from \<open>(0, 0)\<close> to \<open>(600, 300)\<close> with 16 cells in the first direction and 1 in the
  second, initial saturation 0, the velocity \<open>1/6 * 1e-6\<close> in the first direction and 0
  in the second, CFL factor 0.99, start time 0, end time \<open>4e9\<close> and one output per 10
  steps. For every body of the \<^verbatim>\<open>try\<close> block, what \<^verbatim>\<open>main\<close> writes to \<^verbatim>\<open>std::cout\<close> is
  what the body writes when it is run on these values, and what \<^verbatim>\<open>main\<close> writes to
  \<^verbatim>\<open>std::cerr\<close> is the report of what the body throws when it is run on these values:
  \<^verbatim>\<open>main\<close> runs the body, and on no other values.
\<close>

theorem main_runs_reference_values:
  "reference_setup =
     \<lparr> gridN = [16, 1], gridL = [0, 0], gridH = [600, 300], initsat = 0,
       velocity = [1 / 6 * (1 / 10 ^ 6), 0],
       timeloop = \<lparr> tStart = 0, tEnd = 4 * 10 ^ 9, loopName = ''timeloop'', modulo = 10,
                    cFLFactor = 99 / 100, maxDT = 10 ^ 100, firstDT = 10 ^ 100 \<rparr> \<rparr> \<and>
   cout (main body) = fst (body
     \<lparr> gridN = [16, 1], gridL = [0, 0], gridH = [600, 300], initsat = 0,
       velocity = [1 / 6 * (1 / 10 ^ 6), 0],
       timeloop = \<lparr> tStart = 0, tEnd = 4 * 10 ^ 9, loopName = ''timeloop'', modulo = 10,
                    cFLFactor = 99 / 100, maxDT = 10 ^ 100, firstDT = 10 ^ 100 \<rparr> \<rparr>) \<and>
   cerr (main body) =
     (case snd (body
     \<lparr> gridN = [16, 1], gridL = [0, 0], gridH = [600, 300], initsat = 0,
       velocity = [1 / 6 * (1 / 10 ^ 6), 0],
       timeloop = \<lparr> tStart = 0, tEnd = 4 * 10 ^ 9, loopName = ''timeloop'', modulo = 10,
                    cFLFactor = 99 / 100, maxDT = 10 ^ 100, firstDT = 10 ^ 100 \<rparr> \<rparr>) of
        None \<Rightarrow> []
      | Some (DuneException e) \<Rightarrow> ''Dune reported error: '' @ e @ endl
      | Some OtherException \<Rightarrow> ''Unknown exception thrown!'' @ endl) \<and>
   main body = main (\<lambda>s. body
     \<lparr> gridN = [16, 1], gridL = [0, 0], gridH = [600, 300], initsat = 0,
       velocity = [1 / 6 * (1 / 10 ^ 6), 0],
       timeloop = \<lparr> tStart = 0, tEnd = 4 * 10 ^ 9, loopName = ''timeloop'', modulo = 10,
                    cFLFactor = 99 / 100, maxDT = 10 ^ 100, firstDT = 10 ^ 100 \<rparr> \<rparr>)"
proof -
  let ?X = "\<lparr> gridN = [16, 1], gridL = [0, 0], gridH = [600, 300], initsat = 0,
       velocity = [1 / 6 * (1 / 10 ^ 6), 0],
       timeloop = \<lparr> tStart = 0, tEnd = 4 * 10 ^ 9, loopName = ''timeloop'', modulo = 10,
                    cFLFactor = 99 / 100, maxDT = 10 ^ 100, firstDT = 10 ^ 100 \<rparr> \<rparr>"
  have v: "reference_setup = ?X"
    by (rule reference_setup_eval)
  obtain out r where b: "body ?X = (out, r)"
    by (cases "body ?X")
  have c: "cout (main body) = fst (body ?X)"
    unfolding main_def v b by (simp split: option.splits exception.splits)
  have e: "cerr (main body) =
     (case snd (body ?X) of
        None \<Rightarrow> []
      | Some (DuneException e) \<Rightarrow> ''Dune reported error: '' @ e @ endl
      | Some OtherException \<Rightarrow> ''Unknown exception thrown!'' @ endl)"
    unfolding main_def v b by (simp split: option.splits exception.splits)
  have m: "main body = main (\<lambda>s. body ?X)"
    unfolding main_def v by simp
  from v c e m show ?thesis by (intro conjI)
qed

text \<open>
  C7, as claimed: the process ends with a status other than zero whenever a failure
  reaches \<^verbatim>\<open>main\<close>. A body that throws a \<^verbatim>\<open>Dune::Exception\<close> refutes this: the handler
  prints and the status is 0.
\<close>

theorem main_exit_status_counterexample:
  "\<not> (snd (dune_throwing_body reference_setup) \<noteq> None \<longrightarrow> exit_status (main dune_throwing_body) \<noteq> 0)"
  by (simp add: main_def dune_throwing_body_def)

text \<open>
  C7, amended. \<^verbatim>\<open>main\<close> catches every exception that leaves the body: a
  \<^verbatim>\<open>Dune::Exception\<close> is reported on \<^verbatim>\<open>std::cerr\<close> as \<open>Dune reported error: \<close> followed by
  the exception, every other exception as \<open>Unknown exception thrown!\<close>, and nothing is
  written to \<^verbatim>\<open>std::cerr\<close> when the body runs to its end. The exit status is 0 in all
  three cases.
\<close>

theorem main_reports:
  "exit_status (main body) = 0 \<and>
   cout (main body) = fst (body reference_setup) \<and>
   (snd (body reference_setup) = Some (DuneException e) \<longrightarrow>
      cerr (main body) = ''Dune reported error: '' @ e @ endl) \<and>
   (snd (body reference_setup) = Some OtherException \<longrightarrow>
      cerr (main body) = ''Unknown exception thrown!'' @ endl) \<and>
   (snd (body reference_setup) = None \<longrightarrow> cerr (main body) = [])"
  by (cases "body reference_setup") (auto simp: main_def split: option.splits exception.splits)

theorem main_reports_witness:
  "main dune_throwing_body =
     \<lparr> cout = [], cerr = ''Dune reported error: GridError'' @ endl, exit_status = 0 \<rparr> \<and>
   main other_throwing_body =
     \<lparr> cout = [], cerr = ''Unknown exception thrown!'' @ endl, exit_status = 0 \<rparr> \<and>
   main completing_body = \<lparr> cout = ''saturation'', cerr = [], exit_status = 0 \<rparr>"
  using main_reports [of dune_throwing_body "''GridError''"]
    main_reports [of other_throwing_body] main_reports [of completing_body]
  by (simp add: dune_throwing_body_def other_throwing_body_def completing_body_def)

section \<open>Theorems about the transport time loop\<close>

lemma ratios_nonneg:
  assumes "\<forall>(pv, q) \<in> set fs. 0 \<le> pv" and "r \<in> set (ratios fs)"
  shows "0 \<le> r"
  using assms by (auto simp: ratios_def)

lemma candidateStep_nonneg:
  assumes "0 \<le> cFLFactor a" and "0 \<le> maxDT a" and "\<forall>(pv, q) \<in> set fs. 0 \<le> pv"
  shows "0 \<le> candidateStep a fs"
proof (cases "ratios fs = []")
  case True
  then show ?thesis using assms(2) by (simp add: candidateStep_def)
next
  case False
  then have "Min (set (ratios fs)) \<in> set (ratios fs)"
    by (simp add: Min_in)
  then have "0 \<le> Min (set (ratios fs))"
    using assms(3) ratios_nonneg by blast
  then show ?thesis
    using False assms(1,2) by (simp add: candidateStep_def)
qed

lemma candidateStep_within: "within_cfl a fs (candidateStep a fs)"
  by (simp add: within_cfl_def candidateStep_def)

lemma within_cfl_mono: "within_cfl a fs dt \<Longrightarrow> dt' \<le> dt \<Longrightarrow> within_cfl a fs dt'"
  by (auto simp: within_cfl_def)

lemma attempt_inv:
  assumes "0 \<le> dt" and "within_cfl a (faces tr (sol s)) dt" and "attempt tr s dt = (s', acc)"
  shows "loop_inv a tr s'"
    and "\<forall>x. acc = Some x \<longrightarrow> x = (dt, sol s)"
  using assms
  by (auto simp: attempt_def loop_inv_def within_cfl_mono split: option.splits
      intro: within_cfl_mono [of a _ dt])

lemma step_inv:
  assumes cfl: "0 \<le> cFLFactor a" and mx: "0 \<le> maxDT a"
    and pv: "\<forall>u. \<forall>(pv, q) \<in> set (faces tr u). 0 \<le> pv"
    and inv: "loop_inv a tr s" and st: "step a tr s = (s', acc)"
  shows "loop_inv a tr s'"
    and "\<forall>dt u. acc = Some (dt, u) \<longrightarrow> within_cfl a (faces tr u) dt"
proof -
  show "loop_inv a tr s'"
  proof (cases "mode s")
    case RUNNING
    show ?thesis
    proof (cases "tEnd a \<le> currentTime s")
      case True
      with RUNNING st show ?thesis by (auto simp: step_def loop_inv_def)
    next
      case False
      with RUNNING st have "attempt tr s (candidateStep a (faces tr (sol s))) = (s', acc)"
        by (simp add: step_def)
      then show ?thesis
        using attempt_inv(1) candidateStep_nonneg [OF cfl mx] candidateStep_within pv by blast
    qed
  next
    case STEP_REJECTED
    with st have att: "attempt tr s (stepSize s) = (s', acc)" by (simp add: step_def)
    from inv STEP_REJECTED
    have "0 \<le> stepSize s" and "within_cfl a (faces tr (sol s)) (stepSize s)"
      by (simp_all add: loop_inv_def)
    then show ?thesis
      using att by (rule attempt_inv(1))
  next
    case TERMINATED
    with st show ?thesis by (auto simp: step_def loop_inv_def)
  qed
  show "\<forall>dt u. acc = Some (dt, u) \<longrightarrow> within_cfl a (faces tr u) dt"
  proof (cases "mode s")
    case RUNNING
    show ?thesis
    proof (cases "tEnd a \<le> currentTime s")
      case True
      with RUNNING st show ?thesis by (auto simp: step_def)
    next
      case False
      with RUNNING st have "attempt tr s (candidateStep a (faces tr (sol s))) = (s', acc)"
        by (simp add: step_def)
      then show ?thesis
        using candidateStep_within [of a "faces tr (sol s)"]
        by (auto simp: attempt_def split: option.splits)
    qed
  next
    case STEP_REJECTED
    with st have "attempt tr s (stepSize s) = (s', acc)" by (simp add: step_def)
    then show ?thesis
      using inv STEP_REJECTED by (auto simp: attempt_def loop_inv_def split: option.splits)
  next
    case TERMINATED
    with st show ?thesis by (auto simp: step_def)
  qed
qed

lemma execute_within:
  assumes cfl: "0 \<le> cFLFactor a" and mx: "0 \<le> maxDT a"
    and pv: "\<forall>u. \<forall>(pv, q) \<in> set (faces tr u). 0 \<le> pv"
  shows "loop_inv a tr s \<Longrightarrow> (dt, u) \<in> set (fst (execute n a tr s))
     \<Longrightarrow> within_cfl a (faces tr u) dt"
proof (induction n arbitrary: s)
  case 0
  then show ?case by simp
next
  case (Suc n)
  obtain s' acc where st: "step a tr s = (s', acc)" by (cases "step a tr s")
  obtain accs s'' where ex: "execute n a tr s' = (accs, s'')" by (cases "execute n a tr s'")
  have inv': "loop_inv a tr s'"
    using step_inv(1) [OF cfl mx pv Suc.prems(1) st] .
  have here: "\<forall>dt u. acc = Some (dt, u) \<longrightarrow> within_cfl a (faces tr u) dt"
    using step_inv(2) [OF cfl mx pv Suc.prems(1) st] .
  from Suc.prems(2) st ex
  have "(acc = Some (dt, u)) \<or> (dt, u) \<in> set (fst (execute n a tr s'))"
    by (auto split: option.splits)
  then show ?case
    using here Suc.IH [OF inv'] by blast
qed

lemma initial_inv: "loop_inv a tr (initial a u)"
  by (simp add: loop_inv_def initial_def)


lemma ratio_ge_Min:
  assumes "(pv, q) \<in> set fs" and "q \<noteq> 0"
  shows "ratios fs \<noteq> []" and "Min (set (ratios fs)) \<le> pv / \<bar>q\<bar>"
proof -
  from assms have mem: "pv / \<bar>q\<bar> \<in> set (ratios fs)"
    by (force simp: ratios_def)
  then show "ratios fs \<noteq> []" by auto
  from mem show "Min (set (ratios fs)) \<le> pv / \<bar>q\<bar>" by simp
qed

lemma within_cfl_face:
  assumes w: "within_cfl a fs dt" and cfl: "0 \<le> cFLFactor a" "cFLFactor a < 1"
    and pvs: "\<forall>(pv, q) \<in> set fs. 0 \<le> pv" and mem: "(pv, q) \<in> set fs"
  shows "dt * \<bar>q\<bar> \<le> pv"
proof (cases "q = 0")
  case True
  with pvs mem show ?thesis by auto
next
  case False
  have pos: "0 \<le> pv" using pvs mem by auto
  have "dt \<le> cFLFactor a * Min (set (ratios fs))"
    using w ratio_ge_Min(1) [OF mem False] by (simp add: within_cfl_def)
  also have "\<dots> \<le> cFLFactor a * (pv / \<bar>q\<bar>)"
    using ratio_ge_Min(2) [OF mem False] cfl(1) by (rule mult_left_mono)
  also have "\<dots> \<le> 1 * (pv / \<bar>q\<bar>)"
    using cfl(2) pos by (intro mult_right_mono) auto
  finally have "dt \<le> pv / \<bar>q\<bar>" by simp
  then show ?thesis using False by (simp add: pos_le_divide_eq)
qed

text \<open>
  C6. For every accepted step of the time loop, the step size is at most the maximum
  step size and at most the CFL factor times the minimum over the faces of pore volume
  divided by the magnitude of the flux. With a CFL factor below 1, the volume that the
  flux of a face moves within the step does not exceed the pore volume. The CFL factor
  and the maximum step size are not negative and no pore volume is negative.
\<close>

theorem accepted_steps_within_cfl:
  assumes "0 \<le> cFLFactor a" and "cFLFactor a < 1" and "0 \<le> maxDT a"
    and "\<forall>u. \<forall>(pv, q) \<in> set (faces tr u). 0 \<le> pv"
    and "(dt, u) \<in> set (fst (execute n a tr (initial a u0)))"
  shows "dt \<le> maxDT a \<and>
         (ratios (faces tr u) \<noteq> [] \<longrightarrow> dt \<le> cFLFactor a * Min (set (ratios (faces tr u)))) \<and>
         (\<forall>(pv, q) \<in> set (faces tr u). dt * \<bar>q\<bar> \<le> pv)"
proof -
  have w: "within_cfl a (faces tr u) dt"
    using execute_within [OF assms(1,3,4) initial_inv assms(5)] .
  have "\<forall>(pv, q) \<in> set (faces tr u). dt * \<bar>q\<bar> \<le> pv"
    using within_cfl_face [OF w assms(1,2)] assms(4) by blast
  with w show ?thesis by (simp add: within_cfl_def)
qed

lemma sample_candidate:
  "candidateStep (timeloop reference_setup) (faces sample_transport u) = 99 / 25"
  by (simp add: candidateStep_def ratios_def sample_transport_def reference_setup_def Let_def)

lemma sample_update:
  "update sample_transport u dt = (if dt \<le> 1 then Some (Suc u) else None)"
  by (simp add: sample_transport_def)

lemma sample_tEnd: "tEnd (timeloop reference_setup) = 4 * 10 ^ 9"
  by (simp add: reference_setup_def Let_def)

lemma sample_step1:
  "step (timeloop reference_setup) sample_transport (initial (timeloop reference_setup) 0) =
     (\<lparr> mode = STEP_REJECTED, currentTime = 0, stepIndex = 0, stepSize = 99 / 50, sol = 0 \<rparr>, None)"
  by (simp add: step_def attempt_def initial_def sample_candidate sample_update sample_tEnd)
    (simp add: reference_setup_def Let_def)

lemma sample_step2:
  "step (timeloop reference_setup) sample_transport
     \<lparr> mode = STEP_REJECTED, currentTime = 0, stepIndex = 0, stepSize = 99 / 50, sol = 0 \<rparr> =
     (\<lparr> mode = STEP_REJECTED, currentTime = 0, stepIndex = 0, stepSize = 99 / 100, sol = 0 \<rparr>, None)"
  by (simp add: step_def attempt_def sample_update)

lemma sample_step3:
  "step (timeloop reference_setup) sample_transport
     \<lparr> mode = STEP_REJECTED, currentTime = 0, stepIndex = 0, stepSize = 99 / 100, sol = 0 \<rparr> =
     (\<lparr> mode = RUNNING, currentTime = 99 / 100, stepIndex = 1, stepSize = 99 / 100, sol = 1 \<rparr>,
      Some (99 / 100, 0))"
  by (simp add: step_def attempt_def sample_update)

lemma sample_run:
  "fst (execute 3 (timeloop reference_setup) sample_transport (initial (timeloop reference_setup) 0))
     = [(99 / 100, 0)]"
  by (simp add: numeral_3_eq_3 sample_step1 sample_step2 sample_step3)

theorem accepted_steps_within_cfl_witness:
  "(99 / 100, 0) \<in> set (fst (execute 3 (timeloop reference_setup) sample_transport
       (initial (timeloop reference_setup) 0))) \<and>
   0 \<le> cFLFactor (timeloop reference_setup) \<and> cFLFactor (timeloop reference_setup) < 1 \<and>
   0 \<le> maxDT (timeloop reference_setup) \<and>
   (99 / 100 :: real) \<le> maxDT (timeloop reference_setup) \<and>
   (99 / 100 :: real) \<le> cFLFactor (timeloop reference_setup) * Min (set (ratios (faces sample_transport 0))) \<and>
   (99 / 100 :: real) * \<bar>- 2\<bar> \<le> 8"
proof -
  have mem: "(99 / 100, 0) \<in> set (fst (execute 3 (timeloop reference_setup) sample_transport
       (initial (timeloop reference_setup) 0)))"
    by (simp add: sample_run)
  have c0: "0 \<le> cFLFactor (timeloop reference_setup)"
    and c1: "cFLFactor (timeloop reference_setup) < 1"
    and m0: "0 \<le> maxDT (timeloop reference_setup)"
    by (simp_all add: reference_setup_def Let_def)
  have pv: "\<forall>u. \<forall>(pv, q) \<in> set (faces sample_transport u). 0 \<le> pv"
    by (simp add: sample_transport_def)
  have ne: "ratios (faces sample_transport 0) \<noteq> []"
    by (simp add: ratios_def sample_transport_def)
  have face: "(8, - 2) \<in> set (faces sample_transport 0)"
    by (simp add: sample_transport_def)
  from accepted_steps_within_cfl [OF c0 c1 m0 pv mem] ne face
  have "99 / 100 \<le> maxDT (timeloop reference_setup)"
    and "99 / 100 \<le> cFLFactor (timeloop reference_setup) * Min (set (ratios (faces sample_transport 0)))"
    and "(99 / 100 :: real) * \<bar>- 2\<bar> \<le> 8"
    by auto
  with mem c0 c1 m0 show ?thesis by (intro conjI)
qed

end
